theory Spec2Isabelle
  imports Complex_Main "HOL-Library.Word"
begin

section \<open>Values\<close>

text \<open>
  A Python float is a finite binary fraction, an infinity or NaN. The codec never computes
  with floats; only the error classifier compares a number with an integer constant, and
  that comparison is exact on this carrier.
\<close>

datatype pyfloat = Finite rat | PosInf | NegInf | NaN

type_synonym bytes = "8 word list"

text \<open>
  Modelled from the spec: the classes of \<open>bson\<close>, \<open>datetime\<close> and
  \<open>capydb._emb_json\<close> are not among the source files. Each variant carries the payload
  that the data model of the spec gives it: an \<open>ObjectId\<close> is identified by its
  \<open>str()\<close>, a \<open>Datetime\<close> by its \<open>isoformat()\<close>, a \<open>Decimal128\<close> by its \<open>str()\<close>, a
  \<open>Binary\<close> by its bytes, a \<open>Regex\<close> by \<open>pattern\<close> and \<open>flags\<close>, a \<open>Code\<close> by its
  \<open>str()\<close>, a \<open>Timestamp\<close> by \<open>time\<close> and \<open>inc\<close>, and a placeholder by its opaque
  embedding-construction payload. \<open>bson.Code\<close> is a subclass of \<open>str\<close>: every test
  \<open>isinstance(value, str)\<close> holds of a \<open>Code\<close>. No other variant is an instance of
  \<open>bool\<close>, \<open>int\<close>, \<open>float\<close>, \<open>str\<close>, \<open>dict\<close> or \<open>list\<close>.

  The type holds the values that reach \<open>Collection.__serialize\<close> and
  \<open>Collection.__deserialize\<close>: the JSON-compatible Python values, the two embedding
  placeholders, the types registered in \<open>BSON_SERIALIZERS\<close>, and any other Python object
  (\<open>PyObject\<close>, with the name of its type). A dict is an association list in insertion
  order.
\<close>

datatype val =
    PyNone
  | PyBool bool
  | PyInt int
  | PyFloat pyfloat
  | PyStr string
  | PyDict "(string \<times> val) list"
  | PyList "val list"
  | EmbText val
  | EmbImage val
  | ObjectId string
  | Datetime string
  | Decimal128 string
  | Binary bytes
  | Regex string int
  | Code string
  | Timestamp int int
  | MinKey
  | MaxKey
  | PyObject string

section \<open>Errors\<close>

text \<open>
  Every exception the modelled code can raise is a value. \<open>UnsupportedType v\<close> is the
  \<open>TypeError\<close> that the codec raises itself (``Unsupported BSON type'', built from
  \<open>type(value)\<close>); \<open>TypeError\<close>, \<open>KeyError\<close>, \<open>AttributeError\<close> and \<open>ValueError\<close>
  are the interpreter's own; \<open>JSONDecodeError\<close> is what \<open>response.json()\<close> raises on a
  body that is not JSON; \<open>ExternalError\<close> is anything an external collaborator raises.
  The four API errors carry \<open>status_code\<close> and \<open>message\<close> as the code passes them.
\<close>

datatype error =
    UnsupportedType val
  | TypeError
  | KeyError string
  | AttributeError
  | ValueError
  | JSONDecodeError
  | ExternalError string
  | APIClientError val val
  | AuthenticationError val val
  | ClientRequestError val val
  | ServerError val val

definition bindE :: "error + 'a \<Rightarrow> ('a \<Rightarrow> error + 'b) \<Rightarrow> error + 'b" where
  "bindE r f = (case r of Inl e \<Rightarrow> Inl e | Inr x \<Rightarrow> f x)"

section \<open>Python primitives\<close>

text \<open>\<open>k in d\<close>, \<open>d[k]\<close>, \<open>d.get(k, default)\<close> and \<open>d[k] = v\<close> on a dict.\<close>

definition has_key :: "string \<Rightarrow> (string \<times> val) list \<Rightarrow> bool" where
  "has_key k d = (k \<in> set (map fst d))"

definition getitem :: "(string \<times> val) list \<Rightarrow> string \<Rightarrow> error + val" where
  "getitem d k = (case map_of d k of None \<Rightarrow> Inl (KeyError k) | Some v \<Rightarrow> Inr v)"

definition dict_get :: "(string \<times> val) list \<Rightarrow> string \<Rightarrow> val \<Rightarrow> val" where
  "dict_get d k dflt = (case map_of d k of None \<Rightarrow> dflt | Some v \<Rightarrow> v)"

fun setitem :: "(string \<times> val) list \<Rightarrow> string \<Rightarrow> val \<Rightarrow> (string \<times> val) list" where
  "setitem [] k v = [(k, v)]"
| "setitem ((k', v') # d) k v = (if k' = k then (k, v) # d else (k', v') # setitem d k v)"

text \<open>\<open>v[k]\<close> and \<open>v.get(k, default)\<close> on an arbitrary value: only a dict supports them.\<close>

definition subscript :: "val \<Rightarrow> string \<Rightarrow> error + val" where
  "subscript v k = (case v of PyDict d \<Rightarrow> getitem d k | _ \<Rightarrow> Inl TypeError)"

definition py_get :: "val \<Rightarrow> string \<Rightarrow> val \<Rightarrow> error + val" where
  "py_get v k dflt = (case v of PyDict d \<Rightarrow> Inr (dict_get d k dflt) | _ \<Rightarrow> Inl AttributeError)"

definition startswith :: "string \<Rightarrow> string \<Rightarrow> bool" where
  "startswith s p = (take (length p) s = p)"

text \<open>\<open>bytes.hex()\<close>: two lower-case hexadecimal digits for each byte.\<close>

definition hexdigit :: "nat \<Rightarrow> char" where
  "hexdigit n = (if n < 10 then char_of (48 + n) else char_of (87 + n))"

definition hex :: "bytes \<Rightarrow> string" where
  "hex bs = concat (map (\<lambda>b. [hexdigit (unat b div 16), hexdigit (unat b mod 16)]) bs)"

text \<open>
  \<open>bytes.fromhex(s)\<close>: ASCII whitespace is skipped before a byte, each byte is two
  hexadecimal digits of either case, anything else is a \<open>ValueError\<close> (\<open>None\<close> here).
\<close>

definition isspace :: "char \<Rightarrow> bool" where
  "isspace c = (of_char c \<in> {9, 10, 11, 12, 13, 32 :: nat})"

definition digit_value :: "char \<Rightarrow> nat option" where
  "digit_value c =
     (let n = (of_char c :: nat) in
      if 48 \<le> n \<and> n \<le> 57 then Some (n - 48)
      else if 97 \<le> n \<and> n \<le> 102 then Some (n - 87)
      else if 65 \<le> n \<and> n \<le> 70 then Some (n - 55)
      else None)"

fun fromhex :: "string \<Rightarrow> bytes option" where
  "fromhex [] = Some []"
| "fromhex (c # cs) =
     (if isspace c then fromhex cs
      else (case cs of
              [] \<Rightarrow> None
            | c' # rest \<Rightarrow>
                (case (digit_value c, digit_value c') of
                   (Some hi, Some lo) \<Rightarrow>
                     (case fromhex rest of
                        None \<Rightarrow> None
                      | Some bs \<Rightarrow> Some (of_nat (16 * hi + lo) # bs))
                 | _ \<Rightarrow> None)))"

text \<open>
  \<open>bytes.fromhex(x)\<close> on a wire value: a \<open>TypeError\<close> unless \<open>x\<close> is a string (a
  \<open>Code\<close> is one).
\<close>

definition bytes_fromhex :: "val \<Rightarrow> error + bytes" where
  "bytes_fromhex x =
     (case x of
        PyStr s \<Rightarrow> (case fromhex s of None \<Rightarrow> Inl ValueError | Some bs \<Rightarrow> Inr bs)
      | Code s \<Rightarrow> (case fromhex s of None \<Rightarrow> Inl ValueError | Some bs \<Rightarrow> Inr bs)
      | _ \<Rightarrow> Inl TypeError)"

text \<open>
  Comparing a value with an integer constant. \<open>==\<close> never raises and is false between a
  number and a non-number; \<open>>=\<close> and \<open><\<close> raise \<open>TypeError\<close> on a non-number. A bool
  is the integer 0 or 1.
\<close>

definition as_number :: "val \<Rightarrow> pyfloat option" where
  "as_number v =
     (case v of
        PyInt i \<Rightarrow> Some (Finite (of_int i))
      | PyBool b \<Rightarrow> Some (Finite (if b then 1 else 0))
      | PyFloat f \<Rightarrow> Some f
      | _ \<Rightarrow> None)"

definition py_eq_int :: "val \<Rightarrow> int \<Rightarrow> bool" where
  "py_eq_int v n = (case as_number v of Some (Finite q) \<Rightarrow> q = of_int n | _ \<Rightarrow> False)"

definition py_ge_int :: "val \<Rightarrow> int \<Rightarrow> error + bool" where
  "py_ge_int v n =
     (case as_number v of
        None \<Rightarrow> Inl TypeError
      | Some (Finite q) \<Rightarrow> Inr (of_int n \<le> q)
      | Some PosInf \<Rightarrow> Inr True
      | Some _ \<Rightarrow> Inr False)"

definition py_lt_int :: "val \<Rightarrow> int \<Rightarrow> error + bool" where
  "py_lt_int v n =
     (case as_number v of
        None \<Rightarrow> Inl TypeError
      | Some (Finite q) \<Rightarrow> Inr (q < of_int n)
      | Some NegInf \<Rightarrow> Inr True
      | Some _ \<Rightarrow> Inr False)"

section \<open>Requests, responses and external collaborators\<close>

record request =
  http_method :: string
  url :: string
  headers :: "(string \<times> string) list"
  json_body :: "val option"

text \<open>
  A response of the transport: \<open>json\<close> is the result of \<open>response.json()\<close>, \<open>None\<close> when
  the body does not parse and the call raises.
\<close>

record response =
  status_code :: int
  body_text :: string
  json :: "val option"

text \<open>
  What the codec and the classifier call but do not define, taken as parameters: the
  constructors of \<open>bson\<close> and \<open>datetime\<close> (each maps the wire payload it is given to the
  payload of the value it builds, on the carriers of \<open>val\<close>, or raises), the exporter and
  the importer of the two embedding placeholders, and \<open>response.raise_for_status()\<close>
  (true when it raises \<open>HTTPError\<close>).
\<close>

record externals =
  ObjectId_new :: "val \<Rightarrow> error + string"
  fromisoformat :: "val \<Rightarrow> error + string"
  Decimal128_new :: "val \<Rightarrow> error + string"
  Regex_new :: "val \<Rightarrow> val \<Rightarrow> error + string \<times> int"
  Code_new :: "val \<Rightarrow> error + string"
  Timestamp_new :: "val \<Rightarrow> val \<Rightarrow> error + int \<times> int"
  EmbText_to_json :: "val \<Rightarrow> error + val"
  EmbText_from_json :: "val \<Rightarrow> error + val"
  EmbImage_to_json :: "val \<Rightarrow> error + val"
  EmbImage_from_json :: "val \<Rightarrow> error + val"
  raise_for_status :: "response \<Rightarrow> bool"

type_synonym transport = "request \<Rightarrow> error + response"

section \<open>The codec\<close>

text \<open>
  \<open>BSON_SERIALIZERS\<close>: the registry, looked up by the exact type of the value. The entry
  for \<open>EmbText\<close> wraps the exporter's result under \<open>@embText\<close>. \<open>__serialize\<close> never
  reaches the entries of \<open>EmbText\<close> and \<open>Code\<close>: an earlier test returns.
\<close>

definition BSON_SERIALIZERS :: "externals \<Rightarrow> val \<Rightarrow> (error + val) option" where
  "BSON_SERIALIZERS L value =
     (case value of
        EmbText p \<Rightarrow> Some (bindE (EmbText_to_json L p) (\<lambda>j. Inr (PyDict [(''@embText'', j)])))
      | ObjectId s \<Rightarrow> Some (Inr (PyDict [(''$oid'', PyStr s)]))
      | Datetime s \<Rightarrow> Some (Inr (PyDict [(''$date'', PyStr s)]))
      | Decimal128 s \<Rightarrow> Some (Inr (PyDict [(''$numberDecimal'', PyStr s)]))
      | Binary bs \<Rightarrow> Some (Inr (PyDict [(''$binary'', PyStr (hex bs))]))
      | Regex pattern flags \<Rightarrow>
          Some (Inr (PyDict [(''$regex'', PyStr pattern), (''$options'', PyInt flags)]))
      | Code s \<Rightarrow> Some (Inr (PyDict [(''$code'', PyStr s)]))
      | Timestamp time inc \<Rightarrow>
          Some (Inr (PyDict [(''$timestamp'', PyDict [(''t'', PyInt time), (''i'', PyInt inc)])]))
      | MinKey \<Rightarrow> Some (Inr (PyDict [(''$minKey'', PyInt 1)]))
      | MaxKey \<Rightarrow> Some (Inr (PyDict [(''$maxKey'', PyInt 1)]))
      | _ \<Rightarrow> None)"

text \<open>
  \<open>Collection.__serialize\<close>. The first test, \<open>isinstance(value, (bool, int, float,
  str))\<close>, holds of a \<open>Code\<close>, which is returned as it is. The dict and list
  comprehensions run left to right and stop at the first exception.
\<close>

fun serialize :: "externals \<Rightarrow> val \<Rightarrow> error + val"
and serialize_items :: "externals \<Rightarrow> (string \<times> val) list \<Rightarrow> error + (string \<times> val) list"
and serialize_list :: "externals \<Rightarrow> val list \<Rightarrow> error + val list" where
  "serialize L PyNone = Inr PyNone"
| "serialize L (PyBool b) = Inr (PyBool b)"
| "serialize L (PyInt i) = Inr (PyInt i)"
| "serialize L (PyFloat f) = Inr (PyFloat f)"
| "serialize L (PyStr s) = Inr (PyStr s)"
| "serialize L (Code s) = Inr (Code s)"
| "serialize L (PyDict d) =
     (case serialize_items L d of Inl e \<Rightarrow> Inl e | Inr r \<Rightarrow> Inr (PyDict r))"
| "serialize L (PyList xs) =
     (case serialize_list L xs of Inl e \<Rightarrow> Inl e | Inr r \<Rightarrow> Inr (PyList r))"
| "serialize L (EmbText p) = EmbText_to_json L p"
| "serialize L (EmbImage p) = EmbImage_to_json L p"
| "serialize L value =
     (case BSON_SERIALIZERS L value of
        Some r \<Rightarrow> r
      | None \<Rightarrow> Inl (UnsupportedType value))"
| "serialize_items L [] = Inr []"
| "serialize_items L ((k, v) # kvs) =
     (case serialize L v of
        Inl e \<Rightarrow> Inl e
      | Inr w \<Rightarrow> (case serialize_items L kvs of Inl e \<Rightarrow> Inl e | Inr r \<Rightarrow> Inr ((k, w) # r)))"
| "serialize_list L [] = Inr []"
| "serialize_list L (v # vs) =
     (case serialize L v of
        Inl e \<Rightarrow> Inl e
      | Inr w \<Rightarrow> (case serialize_list L vs of Inl e \<Rightarrow> Inl e | Inr r \<Rightarrow> Inr (w # r)))"

text \<open>
  The loop \<open>for key in value\<close> at the head of the dict branch of
  \<open>Collection.__deserialize\<close>, over the keys still to visit. \<open>Some r\<close> is a
  \<open>return\<close> (or a raise) from inside the loop, \<open>None\<close> is the loop running to its end.
\<close>

fun scan_keys :: "externals \<Rightarrow> (string \<times> val) list \<Rightarrow> string list \<Rightarrow> (error + val) option" where
  "scan_keys L value [] = None"
| "scan_keys L value (key # keys) =
     (if has_key ''@embText'' value then
        Some (bindE (EmbText_from_json L (PyDict value)) (\<lambda>p. Inr (EmbText p)))
      else if has_key ''@embImage'' value then
        Some (bindE (EmbImage_from_json L (PyDict value)) (\<lambda>p. Inr (EmbImage p)))
      else if startswith key ''$'' then
        (if key = ''$oid'' then
           Some (bindE (getitem value ''$oid'') (\<lambda>x.
                 bindE (ObjectId_new L x) (\<lambda>s. Inr (ObjectId s))))
         else if key = ''$date'' then
           Some (bindE (getitem value ''$date'') (\<lambda>x.
                 bindE (fromisoformat L x) (\<lambda>s. Inr (Datetime s))))
         else if key = ''$numberDecimal'' then
           Some (bindE (getitem value ''$numberDecimal'') (\<lambda>x.
                 bindE (Decimal128_new L x) (\<lambda>s. Inr (Decimal128 s))))
         else if key = ''$binary'' then
           Some (bindE (getitem value ''$binary'') (\<lambda>x.
                 bindE (bytes_fromhex x) (\<lambda>bs. Inr (Binary bs))))
         else if key = ''$regex'' then
           Some (bindE (getitem value ''$regex'') (\<lambda>x.
                 bindE (Regex_new L x (dict_get value ''$options'' (PyInt 0))) (\<lambda>(p, f).
                 Inr (Regex p f))))
         else if key = ''$code'' then
           Some (bindE (getitem value ''$code'') (\<lambda>x.
                 bindE (Code_new L x) (\<lambda>s. Inr (Code s))))
         else if key = ''$timestamp'' then
           Some (bindE (getitem value ''$timestamp'') (\<lambda>ts.
                 bindE (subscript ts ''t'') (\<lambda>t.
                 bindE (getitem value ''$timestamp'') (\<lambda>ts'.
                 bindE (subscript ts' ''i'') (\<lambda>i.
                 bindE (Timestamp_new L t i) (\<lambda>(time, inc). Inr (Timestamp time inc)))))))
         else if key = ''$minKey'' then Some (Inr MinKey)
         else if key = ''$maxKey'' then Some (Inr MaxKey)
         else scan_keys L value keys)
      else scan_keys L value keys)"

text \<open>
  \<open>Collection.__deserialize\<close>. The \<open>depth\<close> argument is threaded through the
  recursion as in the source, which never reads it. A \<open>Code\<close> passes the test
  \<open>isinstance(value, (bool, int, float, str))\<close> and is returned as it is.
\<close>

fun deserialize :: "externals \<Rightarrow> val \<Rightarrow> int \<Rightarrow> error + val"
and deserialize_items ::
  "externals \<Rightarrow> (string \<times> val) list \<Rightarrow> int \<Rightarrow> error + (string \<times> val) list"
and deserialize_list :: "externals \<Rightarrow> val list \<Rightarrow> int \<Rightarrow> error + val list" where
  "deserialize L (PyDict d) depth =
     (case scan_keys L d (map fst d) of
        Some r \<Rightarrow> r
      | None \<Rightarrow>
          (case deserialize_items L d (depth + 1) of
             Inl e \<Rightarrow> Inl e
           | Inr r \<Rightarrow> Inr (PyDict r)))"
| "deserialize L (PyList xs) depth =
     (case deserialize_list L xs (depth + 1) of Inl e \<Rightarrow> Inl e | Inr r \<Rightarrow> Inr (PyList r))"
| "deserialize L PyNone depth = Inr PyNone"
| "deserialize L (PyBool b) depth = Inr (PyBool b)"
| "deserialize L (PyInt i) depth = Inr (PyInt i)"
| "deserialize L (PyFloat f) depth = Inr (PyFloat f)"
| "deserialize L (PyStr s) depth = Inr (PyStr s)"
| "deserialize L (Code s) depth = Inr (Code s)"
| "deserialize L value depth = Inl (UnsupportedType value)"
| "deserialize_items L [] depth = Inr []"
| "deserialize_items L ((k, v) # kvs) depth =
     (case deserialize L v depth of
        Inl e \<Rightarrow> Inl e
      | Inr w \<Rightarrow>
          (case deserialize_items L kvs depth of Inl e \<Rightarrow> Inl e | Inr r \<Rightarrow> Inr ((k, w) # r)))"
| "deserialize_list L [] depth = Inr []"
| "deserialize_list L (v # vs) depth =
     (case deserialize L v depth of
        Inl e \<Rightarrow> Inl e
      | Inr w \<Rightarrow>
          (case deserialize_list L vs depth of Inl e \<Rightarrow> Inl e | Inr r \<Rightarrow> Inr (w # r)))"

section \<open>The error classifier\<close>

text \<open>
  The handler of \<open>HTTPError\<close> in \<open>Collection.handle_response\<close>: the exception it
  raises. An exception that is not a \<open>ValueError\<close> leaves the inner \<open>try\<close> as it is.
\<close>

definition classify :: "response \<Rightarrow> error" where
  "classify response =
     (case json response of
        None \<Rightarrow> APIClientError (PyInt (status_code response)) (PyStr (body_text response))
      | Some error_data \<Rightarrow>
          (case error_data of
             PyDict d \<Rightarrow>
               (let code = dict_get d ''code'' (PyInt 500);
                    message = dict_get d ''message'' (PyStr ''An unknown error occurred.'')
                in if py_eq_int code 401 then AuthenticationError code message
                   else (case py_ge_int code 400 of
                           Inl e \<Rightarrow> e
                         | Inr False \<Rightarrow> ServerError code message
                         | Inr True \<Rightarrow>
                             (case py_lt_int code 500 of
                                Inl e \<Rightarrow> e
                              | Inr True \<Rightarrow> ClientRequestError code message
                              | Inr False \<Rightarrow> ServerError code message)))
           | _ \<Rightarrow> AttributeError))"

text \<open>\<open>Collection.handle_response\<close>.\<close>

definition handle_response :: "externals \<Rightarrow> response \<Rightarrow> error + val" where
  "handle_response L response =
     (if raise_for_status L response then Inl (classify response)
      else (case json response of
              None \<Rightarrow> Inl JSONDecodeError
            | Some json_response \<Rightarrow> deserialize L json_response 0))"

section \<open>The operations of a collection\<close>

record collection =
  api_key :: string
  project_id :: string
  db_name :: string
  collection_name :: string

definition get_collection_url :: "collection \<Rightarrow> string" where
  "get_collection_url c =
     ''https://api.capydb.com/v0/db/'' @ project_id c @ ''_'' @ db_name c
       @ ''/collection/'' @ collection_name c @ ''/document''"

definition get_headers :: "collection \<Rightarrow> (string \<times> string) list" where
  "get_headers c =
     [(''Authorization'', ''Bearer '' @ api_key c), (''Content-Type'', ''application/json'')]"

text \<open>
  Each operation builds its request, hands it to the transport (\<open>requests.post\<close>,
  \<open>requests.put\<close>, \<open>requests.delete\<close>; a parameter here) and passes the response to
  \<open>handle_response\<close>. The \<open>data\<close> dict of each operation is a definition of its own.
\<close>

definition insert_data :: "externals \<Rightarrow> val list \<Rightarrow> error + val" where
  "insert_data L documents =
     bindE (serialize_list L documents) (\<lambda>serialized_docs.
     Inr (PyDict [(''documents'', PyList serialized_docs)]))"

definition collection_insert ::
  "externals \<Rightarrow> transport \<Rightarrow> collection \<Rightarrow> val list \<Rightarrow> error + val" where
  "collection_insert L send c documents =
     bindE (insert_data L documents) (\<lambda>data.
     bindE (send \<lparr>http_method = ''POST'', url = get_collection_url c,
                   headers = get_headers c, json_body = Some data\<rparr>) (\<lambda>response.
     handle_response L response))"

definition update_data :: "externals \<Rightarrow> val \<Rightarrow> val \<Rightarrow> val \<Rightarrow> error + val" where
  "update_data L filter' update upsert =
     bindE (serialize L filter') (\<lambda>transformed_filter.
     bindE (serialize L update) (\<lambda>transformed_update.
     Inr (PyDict [(''filter'', transformed_filter), (''update'', transformed_update),
                  (''upsert'', upsert)])))"

definition collection_update ::
  "externals \<Rightarrow> transport \<Rightarrow> collection \<Rightarrow> val \<Rightarrow> val \<Rightarrow> val \<Rightarrow> error + val" where
  "collection_update L send c filter' update upsert =
     bindE (update_data L filter' update upsert) (\<lambda>data.
     bindE (send \<lparr>http_method = ''PUT'', url = get_collection_url c,
                   headers = get_headers c, json_body = Some data\<rparr>) (\<lambda>response.
     handle_response L response))"

definition delete_data :: "externals \<Rightarrow> val \<Rightarrow> error + val" where
  "delete_data L filter' =
     bindE (serialize L filter') (\<lambda>transformed_filter.
     Inr (PyDict [(''filter'', transformed_filter)]))"

definition collection_delete ::
  "externals \<Rightarrow> transport \<Rightarrow> collection \<Rightarrow> val \<Rightarrow> error + val" where
  "collection_delete L send c filter' =
     bindE (delete_data L filter') (\<lambda>data.
     bindE (send \<lparr>http_method = ''DELETE'', url = get_collection_url c,
                   headers = get_headers c, json_body = Some data\<rparr>) (\<lambda>response.
     handle_response L response))"

definition find_data :: "externals \<Rightarrow> val \<Rightarrow> val \<Rightarrow> val \<Rightarrow> val \<Rightarrow> val \<Rightarrow> error + val" where
  "find_data L filter' projection sort' limit skip =
     bindE (serialize L filter') (\<lambda>transformed_filter.
     Inr (PyDict [(''filter'', transformed_filter), (''projection'', projection),
                  (''sort'', sort'), (''limit'', limit), (''skip'', skip)]))"

definition collection_find ::
  "externals \<Rightarrow> transport \<Rightarrow> collection \<Rightarrow> val \<Rightarrow> val \<Rightarrow> val \<Rightarrow> val \<Rightarrow> val \<Rightarrow> error + val"
  where
  "collection_find L send c filter' projection sort' limit skip =
     bindE (find_data L filter' projection sort' limit skip) (\<lambda>data.
     bindE (send \<lparr>http_method = ''POST'', url = get_collection_url c @ ''/find'',
                   headers = get_headers c, json_body = Some data\<rparr>) (\<lambda>response.
     bindE (handle_response L response) (\<lambda>response_data.
     py_get response_data ''docs'' (PyList []))))"

text \<open>
  The \<open>data\<close> dict of \<open>Collection.query\<close>: an optional argument is stored only when it
  is not \<open>None\<close>, and is stored as it was passed.
\<close>

definition query_data :: "val \<Rightarrow> val \<Rightarrow> val \<Rightarrow> val \<Rightarrow> val \<Rightarrow> val \<Rightarrow> (string \<times> val) list" where
  "query_data query filter' projection emb_model top_k include_values =
     (let data = [(''query'', query)];
          data = (if filter' \<noteq> PyNone then setitem data ''filter'' filter' else data);
          data = (if projection \<noteq> PyNone then setitem data ''projection'' projection else data);
          data = (if emb_model \<noteq> PyNone then setitem data ''emb_model'' emb_model else data);
          data = (if top_k \<noteq> PyNone then setitem data ''top_k'' top_k else data);
          data = (if include_values \<noteq> PyNone
                  then setitem data ''include_values'' include_values else data)
      in data)"

definition collection_query ::
  "externals \<Rightarrow> transport \<Rightarrow> collection \<Rightarrow> val \<Rightarrow> val \<Rightarrow> val \<Rightarrow> val \<Rightarrow> val \<Rightarrow> val
     \<Rightarrow> error + val" where
  "collection_query L send c query filter' projection emb_model top_k include_values =
     bindE (send \<lparr>http_method = ''POST'', url = get_collection_url c @ ''/query'',
                   headers = get_headers c,
                   json_body = Some (PyDict (query_data query filter' projection emb_model
                                               top_k include_values))\<rparr>) (\<lambda>response.
     bindE (handle_response L response) (\<lambda>response_data.
     py_get response_data ''matches'' (PyList [])))"


section \<open>Vocabulary of the properties\<close>

text \<open>The eleven extension variants of the data model.\<close>

definition is_extension :: "val \<Rightarrow> bool" where
  "is_extension v =
     (case v of
        EmbText _ \<Rightarrow> True | EmbImage _ \<Rightarrow> True | ObjectId _ \<Rightarrow> True | Datetime _ \<Rightarrow> True
      | Decimal128 _ \<Rightarrow> True | Binary _ \<Rightarrow> True | Regex _ _ \<Rightarrow> True | Code _ \<Rightarrow> True
      | Timestamp _ _ \<Rightarrow> True | MinKey \<Rightarrow> True | MaxKey \<Rightarrow> True | _ \<Rightarrow> False)"

text \<open>
  The contract of the external collaborators at one value: the constructor rebuilds the
  value from what its own accessor printed, and a placeholder's exporter yields a dict that
  carries the placeholder's tag and that its importer reads back. Nothing is asked for a
  \<open>Binary\<close>, a \<open>MinKey\<close>, a \<open>MaxKey\<close> or a \<open>Code\<close>: no external constructor with
  arguments is called on their way back.
\<close>

definition externals_invert :: "externals \<Rightarrow> val \<Rightarrow> bool" where
  "externals_invert L v =
     (case v of
        ObjectId s \<Rightarrow> ObjectId_new L (PyStr s) = Inr s
      | Datetime s \<Rightarrow> fromisoformat L (PyStr s) = Inr s
      | Decimal128 s \<Rightarrow> Decimal128_new L (PyStr s) = Inr s
      | Regex p f \<Rightarrow> Regex_new L (PyStr p) (PyInt f) = Inr (p, f)
      | Timestamp t i \<Rightarrow> Timestamp_new L (PyInt t) (PyInt i) = Inr (t, i)
      | EmbText p \<Rightarrow>
          (case EmbText_to_json L p of
             Inr (PyDict d) \<Rightarrow>
               has_key ''@embText'' d \<and> EmbText_from_json L (PyDict d) = Inr p
           | _ \<Rightarrow> False)
      | EmbImage p \<Rightarrow>
          (case EmbImage_to_json L p of
             Inr (PyDict d) \<Rightarrow>
               \<not> has_key ''@embText'' d \<and> has_key ''@embImage'' d
               \<and> EmbImage_from_json L (PyDict d) = Inr p
           | _ \<Rightarrow> False)
      | _ \<Rightarrow> True)"

text \<open>The nine \<open>$\<close> tags, in the order in which the spec lists them.\<close>

definition tag_order :: "string list" where
  "tag_order = [''$oid'', ''$date'', ''$numberDecimal'', ''$binary'', ''$regex'', ''$code'',
                ''$timestamp'', ''$minKey'', ''$maxKey'']"

text \<open>
  Decoding a document as the extension value of one given tag, from that key's payload
  (and \<open>$options\<close> for \<open>$regex\<close>), whatever other keys the document has.
\<close>

definition decode_tag :: "externals \<Rightarrow> (string \<times> val) list \<Rightarrow> string \<Rightarrow> error + val" where
  "decode_tag L d k =
     (if k = ''$oid'' then
        bindE (getitem d k) (\<lambda>x. bindE (ObjectId_new L x) (\<lambda>s. Inr (ObjectId s)))
      else if k = ''$date'' then
        bindE (getitem d k) (\<lambda>x. bindE (fromisoformat L x) (\<lambda>s. Inr (Datetime s)))
      else if k = ''$numberDecimal'' then
        bindE (getitem d k) (\<lambda>x. bindE (Decimal128_new L x) (\<lambda>s. Inr (Decimal128 s)))
      else if k = ''$binary'' then
        bindE (getitem d k) (\<lambda>x. bindE (bytes_fromhex x) (\<lambda>bs. Inr (Binary bs)))
      else if k = ''$regex'' then
        bindE (getitem d k) (\<lambda>x.
        bindE (Regex_new L x (dict_get d ''$options'' (PyInt 0))) (\<lambda>(p, f). Inr (Regex p f)))
      else if k = ''$code'' then
        bindE (getitem d k) (\<lambda>x. bindE (Code_new L x) (\<lambda>s. Inr (Code s)))
      else if k = ''$timestamp'' then
        bindE (getitem d k) (\<lambda>ts.
        bindE (subscript ts ''t'') (\<lambda>t.
        bindE (getitem d k) (\<lambda>ts'.
        bindE (subscript ts' ''i'') (\<lambda>i.
        bindE (Timestamp_new L t i) (\<lambda>(time, inc). Inr (Timestamp time inc))))))
      else if k = ''$minKey'' then Inr MinKey
      else if k = ''$maxKey'' then Inr MaxKey
      else Inl (KeyError k))"

text \<open>The structural decoding of a document: each value deserialized, in key order.\<close>

definition decode_structural ::
  "externals \<Rightarrow> (string \<times> val) list \<Rightarrow> int \<Rightarrow> error + val" where
  "decode_structural L d depth =
     (case deserialize_items L d (depth + 1) of Inl e \<Rightarrow> Inl e | Inr r \<Rightarrow> Inr (PyDict r))"

text \<open>
  The dispatch as the spec words it: the first tag of the fixed order that the document
  contains decides. The dispatch by the document's own key order: the first key of the
  document that is a tag decides.
\<close>

definition decode_fixed_order ::
  "externals \<Rightarrow> (string \<times> val) list \<Rightarrow> int \<Rightarrow> error + val" where
  "decode_fixed_order L d depth =
     (case find (\<lambda>t. has_key t d) tag_order of
        Some t \<Rightarrow> decode_tag L d t
      | None \<Rightarrow> decode_structural L d depth)"

definition decode_key_order ::
  "externals \<Rightarrow> (string \<times> val) list \<Rightarrow> int \<Rightarrow> error + val" where
  "decode_key_order L d depth =
     (case find (\<lambda>k. k \<in> set tag_order) (map fst d) of
        Some k \<Rightarrow> decode_tag L d k
      | None \<Rightarrow> decode_structural L d depth)"

text \<open>
  A value without extension values: null, booleans, integers, floats, strings, and
  documents and sequences of such values.
\<close>

fun plain :: "val \<Rightarrow> bool"
and plain_items :: "(string \<times> val) list \<Rightarrow> bool"
and plain_list :: "val list \<Rightarrow> bool" where
  "plain PyNone = True"
| "plain (PyBool b) = True"
| "plain (PyInt i) = True"
| "plain (PyFloat f) = True"
| "plain (PyStr s) = True"
| "plain (PyDict d) = plain_items d"
| "plain (PyList xs) = plain_list xs"
| "plain v = False"
| "plain_items [] = True"
| "plain_items ((k, v) # kvs) = (plain v \<and> plain_items kvs)"
| "plain_list [] = True"
| "plain_list (v # vs) = (plain v \<and> plain_list vs)"

text \<open>No document inside the value, at any depth, has a tag among its keys.\<close>

definition reserved_keys :: "string list" where
  "reserved_keys = ''@embText'' # ''@embImage'' # tag_order"

fun tag_free :: "val \<Rightarrow> bool"
and tag_free_items :: "(string \<times> val) list \<Rightarrow> bool"
and tag_free_list :: "val list \<Rightarrow> bool" where
  "tag_free (PyDict d) = (list_all (\<lambda>k. k \<notin> set reserved_keys) (map fst d) \<and> tag_free_items d)"
| "tag_free (PyList xs) = tag_free_list xs"
| "tag_free v = True"
| "tag_free_items [] = True"
| "tag_free_items ((k, v) # kvs) = (tag_free v \<and> tag_free_items kvs)"
| "tag_free_list [] = True"
| "tag_free_list (v # vs) = (tag_free v \<and> tag_free_list vs)"

text \<open>
  The types \<open>__serialize\<close> recognises, the shapes \<open>__deserialize\<close> recognises (a scalar,
  of which a \<open>Code\<close> is one as a \<open>str\<close>, a mapping or a sequence), and the occurrence of
  a value of an unrecognised type inside documents and sequences.
\<close>

definition recognised :: "val \<Rightarrow> bool" where
  "recognised v = (case v of PyObject _ \<Rightarrow> False | _ \<Rightarrow> True)"

definition wire_shape :: "val \<Rightarrow> bool" where
  "wire_shape v =
     (case v of
        PyNone \<Rightarrow> True | PyBool _ \<Rightarrow> True | PyInt _ \<Rightarrow> True | PyFloat _ \<Rightarrow> True
      | PyStr _ \<Rightarrow> True | Code _ \<Rightarrow> True | PyDict _ \<Rightarrow> True | PyList _ \<Rightarrow> True
      | _ \<Rightarrow> False)"

fun unrecognised_in :: "val \<Rightarrow> bool"
and unrecognised_in_items :: "(string \<times> val) list \<Rightarrow> bool"
and unrecognised_in_list :: "val list \<Rightarrow> bool" where
  "unrecognised_in (PyObject t) = True"
| "unrecognised_in (PyDict d) = unrecognised_in_items d"
| "unrecognised_in (PyList xs) = unrecognised_in_list xs"
| "unrecognised_in v = False"
| "unrecognised_in_items [] = False"
| "unrecognised_in_items ((k, v) # kvs) = (unrecognised_in v \<or> unrecognised_in_items kvs)"
| "unrecognised_in_list [] = False"
| "unrecognised_in_list (v # vs) = (unrecognised_in v \<or> unrecognised_in_list vs)"

text \<open>
  The occurrence of a value that is neither a scalar nor a mapping nor a sequence in a
  position that \<open>__deserialize\<close> decodes structurally: the value itself, or inside
  sequences and documents that have no tag among their keys.
\<close>

fun shapeless_in :: "val \<Rightarrow> bool"
and shapeless_in_items :: "(string \<times> val) list \<Rightarrow> bool"
and shapeless_in_list :: "val list \<Rightarrow> bool" where
  "shapeless_in (PyDict d) =
     (list_all (\<lambda>k. k \<notin> set reserved_keys) (map fst d) \<and> shapeless_in_items d)"
| "shapeless_in (PyList xs) = shapeless_in_list xs"
| "shapeless_in v = (\<not> wire_shape v)"
| "shapeless_in_items [] = False"
| "shapeless_in_items ((k, v) # kvs) = (shapeless_in v \<or> shapeless_in_items kvs)"
| "shapeless_in_list [] = False"
| "shapeless_in_list (v # vs) = (shapeless_in v \<or> shapeless_in_list vs)"

text \<open>
  Modelled from the spec: \<open>EmbText.to_json\<close>, \<open>EmbText.from_json\<close>,
  \<open>EmbImage.to_json\<close> and \<open>EmbImage.from_json\<close> are not among the source files. The
  spec gives their contract: the exporter produces the tagged wire form, a document that
  holds the opaque payload under the tag \<open>@embText\<close> (\<open>@embImage\<close>), and the importer
  rebuilds the placeholder from the tagged document.
\<close>

definition EmbText_export :: "val \<Rightarrow> error + val" where
  "EmbText_export p = Inr (PyDict [(''@embText'', p)])"

definition EmbText_import :: "val \<Rightarrow> error + val" where
  "EmbText_import v = subscript v ''@embText''"

definition EmbImage_export :: "val \<Rightarrow> error + val" where
  "EmbImage_export p = Inr (PyDict [(''@embImage'', p)])"

definition EmbImage_import :: "val \<Rightarrow> error + val" where
  "EmbImage_import v = subscript v ''@embImage''"

text \<open>
  One instance of the external collaborators, for running the model on concrete inputs:
  every library constructor takes a payload of the right JSON type as it is, the
  placeholders follow the contract above, and \<open>raise_for_status\<close> raises on the statuses
  400 to 599.
\<close>

definition from_str :: "val \<Rightarrow> error + string" where
  "from_str x = (case x of PyStr s \<Rightarrow> Inr s | _ \<Rightarrow> Inl TypeError)"

definition from_int_pair :: "val \<Rightarrow> val \<Rightarrow> error + int \<times> int" where
  "from_int_pair x y =
     (case x of
        PyInt a \<Rightarrow> (case y of PyInt b \<Rightarrow> Inr (a, b) | _ \<Rightarrow> Inl TypeError)
      | _ \<Rightarrow> Inl TypeError)"

definition from_str_int :: "val \<Rightarrow> val \<Rightarrow> error + string \<times> int" where
  "from_str_int x y =
     (case x of
        PyStr a \<Rightarrow> (case y of PyInt b \<Rightarrow> Inr (a, b) | _ \<Rightarrow> Inl TypeError)
      | _ \<Rightarrow> Inl TypeError)"

definition sample_externals :: externals where
  "sample_externals =
     \<lparr>ObjectId_new = from_str,
      fromisoformat = from_str,
      Decimal128_new = from_str,
      Regex_new = from_str_int,
      Code_new = from_str,
      Timestamp_new = from_int_pair,
      EmbText_to_json = EmbText_export,
      EmbText_from_json = EmbText_import,
      EmbImage_to_json = EmbImage_export,
      EmbImage_from_json = EmbImage_import,
      raise_for_status = (\<lambda>r. 400 \<le> status_code r \<and> status_code r < 600)\<rparr>"

section \<open>Auxiliary facts\<close>

lemma bindE_Inl: "bindE (Inl e) f = Inl e"
  by (simp add: bindE_def)

lemma bindE_Inr: "bindE (Inr x) f = f x"
  by (simp add: bindE_def)

subsection \<open>Hexadecimal text\<close>

lemma digit_value_hexdigit: "n < 16 \<Longrightarrow> digit_value (hexdigit n) = Some n"
  by (auto simp: digit_value_def hexdigit_def Let_def)

lemma not_isspace_hexdigit: "n < 16 \<Longrightarrow> \<not> isspace (hexdigit n)"
  by (auto simp: isspace_def hexdigit_def)

lemma byte_nibbles: "of_nat (16 * (unat b div 16) + unat b mod 16) = (b :: 8 word)"
  by simp

lemma unat_byte_div: "unat (b :: 8 word) div 16 < 16"
  using unsigned_less [of b, where ?'a = nat] by simp

lemma fromhex_hex: "fromhex (hex bs) = Some bs"
proof (induction bs)
  case Nil
  show ?case by (simp add: hex_def)
next
  case (Cons b bs)
  have step: "hex (b # bs) = hexdigit (unat b div 16) # hexdigit (unat b mod 16) # hex bs"
    by (simp add: hex_def)
  show ?case
    unfolding step
    using Cons.IH
    by (simp add: not_isspace_hexdigit digit_value_hexdigit unat_byte_div byte_nibbles
        del: of_nat_add of_nat_mult)
qed

subsection \<open>The key loop\<close>

lemma scan_keys_embText:
  assumes "has_key ''@embText'' d"
  shows "scan_keys L d (map fst d)
           = Some (bindE (EmbText_from_json L (PyDict d)) (\<lambda>p. Inr (EmbText p)))"
proof (cases d)
  case Nil
  with assms show ?thesis by (simp add: has_key_def)
next
  case (Cons kv d')
  with assms show ?thesis by simp
qed

lemma scan_keys_embImage:
  assumes "\<not> has_key ''@embText'' d" and "has_key ''@embImage'' d"
  shows "scan_keys L d (map fst d)
           = Some (bindE (EmbImage_from_json L (PyDict d)) (\<lambda>p. Inr (EmbImage p)))"
proof (cases d)
  case Nil
  with assms show ?thesis by (simp add: has_key_def)
next
  case (Cons kv d')
  with assms show ?thesis by simp
qed

lemma scan_keys_tag:
  assumes "\<not> has_key ''@embText'' d" and "\<not> has_key ''@embImage'' d"
    and "k \<in> set tag_order"
  shows "scan_keys L d (k # ks) = Some (decode_tag L d k)"
proof -
  have "scan_keys L d (k # ks) = Some (decode_tag L d k)" if "k = t" and "t \<in> set tag_order"
    for t
    using that(2) assms(1,2) unfolding that(1) tag_order_def
    by (simp only: list.set insert_iff empty_iff simp_thms, elim disjE)
       (simp_all add: decode_tag_def startswith_def)
  then show ?thesis using assms(3) by simp
qed

lemma scan_keys_other:
  assumes "k \<notin> set tag_order"
    and "\<not> has_key ''@embText'' d" and "\<not> has_key ''@embImage'' d"
  shows "scan_keys L d (k # ks) = scan_keys L d ks"
  using assms by (simp add: tag_order_def)

lemma scan_keys_untagged:
  assumes "\<not> has_key ''@embText'' d" and "\<not> has_key ''@embImage'' d"
  shows "scan_keys L d ks = map_option (decode_tag L d) (find (\<lambda>k. k \<in> set tag_order) ks)"
proof (induction ks)
  case Nil
  show ?case by simp
next
  case (Cons k ks)
  show ?case
  proof (cases "k \<in> set tag_order")
    case True
    then show ?thesis
      using scan_keys_tag [OF assms True] by simp
  next
    case False
    then show ?thesis
      using scan_keys_other [OF False assms] Cons.IH by simp
  qed
qed

lemma scan_keys_tag_free:
  assumes "list_all (\<lambda>k. k \<notin> set reserved_keys) (map fst d)"
  shows "scan_keys L d (map fst d) = None"
proof -
  have free: "k \<notin> set reserved_keys" if "k \<in> set (map fst d)" for k
    using assms that by (auto simp: list_all_iff)
  have "''@embText'' \<in> set reserved_keys" "''@embImage'' \<in> set reserved_keys"
    by (simp_all add: reserved_keys_def)
  with free have emb: "\<not> has_key ''@embText'' d" "\<not> has_key ''@embImage'' d"
    unfolding has_key_def by blast+
  have "set tag_order \<subseteq> set reserved_keys"
    unfolding reserved_keys_def by (simp add: subset_insertI2)
  with free have "find (\<lambda>k. k \<in> set tag_order) (map fst d) = None"
    unfolding find_None_iff by blast
  then show ?thesis
    by (simp add: scan_keys_untagged [OF emb])
qed

section \<open>Properties of the codec\<close>

text \<open>
  Claim C1. For every extension value \<open>v\<close> (ObjectId, DateTime, Decimal, Binary, Regex, Code,
  Timestamp, MinKey, MaxKey, EmbeddedText, EmbeddedImage), serializing \<open>v\<close> and
  deserializing the result gives \<open>v\<close> back. A Binary is compared by its bytes. A Code is a
  string to both functions and passes through each unchanged. The constructors of the
  libraries and the exporter and importer of the placeholders are parameters; the round
  trip holds at every value at which they invert each other.
\<close>

theorem extension_roundtrip:
  assumes "is_extension v" and "externals_invert L v"
  shows "bindE (serialize L v) (\<lambda>w. deserialize L w depth) = Inr v"
proof (cases v)
  case (EmbText p)
  with assms(2) obtain d where d: "EmbText_to_json L p = Inr (PyDict d)"
    "has_key ''@embText'' d" "EmbText_from_json L (PyDict d) = Inr p"
    by (auto simp: externals_invert_def split: sum.splits val.splits)
  show ?thesis
    by (simp add: EmbText d bindE_Inr scan_keys_embText)
next
  case (EmbImage p)
  with assms(2) obtain d where d: "EmbImage_to_json L p = Inr (PyDict d)"
    "\<not> has_key ''@embText'' d" "has_key ''@embImage'' d"
    "EmbImage_from_json L (PyDict d) = Inr p"
    by (auto simp: externals_invert_def split: sum.splits val.splits)
  show ?thesis
    by (simp add: EmbImage d bindE_Inr scan_keys_embImage)
next
  case (ObjectId s)
  with assms(2) have "ObjectId_new L (PyStr s) = Inr s" by (simp add: externals_invert_def)
  then show ?thesis
    by (simp add: ObjectId BSON_SERIALIZERS_def bindE_def has_key_def startswith_def getitem_def)
next
  case (Datetime s)
  with assms(2) have "fromisoformat L (PyStr s) = Inr s" by (simp add: externals_invert_def)
  then show ?thesis
    by (simp add: Datetime BSON_SERIALIZERS_def bindE_def has_key_def startswith_def getitem_def)
next
  case (Decimal128 s)
  with assms(2) have "Decimal128_new L (PyStr s) = Inr s" by (simp add: externals_invert_def)
  then show ?thesis
    by (simp add: Decimal128 BSON_SERIALIZERS_def bindE_def has_key_def startswith_def
        getitem_def)
next
  case (Binary bs)
  show ?thesis
    by (simp add: Binary BSON_SERIALIZERS_def bindE_def has_key_def startswith_def getitem_def
        bytes_fromhex_def fromhex_hex)
next
  case (Regex p f)
  with assms(2) have "Regex_new L (PyStr p) (PyInt f) = Inr (p, f)"
    by (simp add: externals_invert_def)
  then show ?thesis
    by (simp add: Regex BSON_SERIALIZERS_def bindE_def has_key_def startswith_def getitem_def
        dict_get_def)
next
  case (Code s)
  show ?thesis
    by (simp add: Code bindE_Inr)
next
  case (Timestamp t i)
  with assms(2) have "Timestamp_new L (PyInt t) (PyInt i) = Inr (t, i)"
    by (simp add: externals_invert_def)
  then show ?thesis
    by (simp add: Timestamp BSON_SERIALIZERS_def bindE_def has_key_def startswith_def
        getitem_def subscript_def)
next
  case MinKey
  show ?thesis
    by (simp add: MinKey BSON_SERIALIZERS_def bindE_def has_key_def startswith_def)
next
  case MaxKey
  show ?thesis
    by (simp add: MaxKey BSON_SERIALIZERS_def bindE_def has_key_def startswith_def)
qed (use assms(1) in \<open>simp_all add: is_extension_def\<close>)

theorem extension_roundtrip_witness:
  "is_extension (Binary [0xDE, 0xAD]) \<and> externals_invert sample_externals (Binary [0xDE, 0xAD])
   \<and> bindE (serialize sample_externals (Binary [0xDE, 0xAD]))
        (\<lambda>w. deserialize sample_externals w 0) = Inr (Binary [0xDE, 0xAD])
   \<and> is_extension (EmbText (PyStr ''hello''))
   \<and> externals_invert sample_externals (EmbText (PyStr ''hello''))
   \<and> bindE (serialize sample_externals (EmbText (PyStr ''hello'')))
        (\<lambda>w. deserialize sample_externals w 0) = Inr (EmbText (PyStr ''hello''))
   \<and> is_extension (Regex ''^a'' 2) \<and> externals_invert sample_externals (Regex ''^a'' 2)
   \<and> bindE (serialize sample_externals (Regex ''^a'' 2))
        (\<lambda>w. deserialize sample_externals w 0) = Inr (Regex ''^a'' 2)
   \<and> is_extension (Timestamp 1700000000 1)
   \<and> externals_invert sample_externals (Timestamp 1700000000 1)
   \<and> bindE (serialize sample_externals (Timestamp 1700000000 1))
        (\<lambda>w. deserialize sample_externals w 0) = Inr (Timestamp 1700000000 1)
   \<and> is_extension (Code ''f()'') \<and> externals_invert sample_externals (Code ''f()'')
   \<and> bindE (serialize sample_externals (Code ''f()''))
        (\<lambda>w. deserialize sample_externals w 0) = Inr (Code ''f()'')"
proof -
  have b: "is_extension (Binary [0xDE, 0xAD])"
    "externals_invert sample_externals (Binary [0xDE, 0xAD])"
    by (simp_all add: is_extension_def externals_invert_def)
  have t: "is_extension (EmbText (PyStr ''hello''))"
    "externals_invert sample_externals (EmbText (PyStr ''hello''))"
    by (simp_all add: is_extension_def externals_invert_def sample_externals_def has_key_def
        EmbText_export_def EmbText_import_def subscript_def getitem_def)
  have r: "is_extension (Regex ''^a'' 2)" "externals_invert sample_externals (Regex ''^a'' 2)"
    by (simp_all add: is_extension_def externals_invert_def sample_externals_def
        from_str_int_def)
  have s: "is_extension (Timestamp 1700000000 1)"
    "externals_invert sample_externals (Timestamp 1700000000 1)"
    by (simp_all add: is_extension_def externals_invert_def sample_externals_def
        from_int_pair_def)
  have c: "is_extension (Code ''f()'')" "externals_invert sample_externals (Code ''f()'')"
    by (simp_all add: is_extension_def externals_invert_def)
  show ?thesis
    using b t r s c extension_roundtrip [OF b, of 0] extension_roundtrip [OF t, of 0]
      extension_roundtrip [OF r, of 0] extension_roundtrip [OF s, of 0]
      extension_roundtrip [OF c, of 0]
    by simp
qed

text \<open>
  A Code never takes the wire form \<open>$code\<close> on the way out, and is returned as it is on
  the way in.
\<close>

lemma code_unchanged:
  "serialize L (Code s) = Inr (Code s)"
  "deserialize L (Code s) depth = Inr (Code s)"
  by simp_all

text \<open>The hexadecimal text of a Binary is read in either case: the bytes decide.\<close>

lemma binary_hex_case:
  "deserialize L (PyDict [(''$binary'', PyStr ''DEAD'')]) depth = Inr (Binary [0xDE, 0xAD])"
  "deserialize L (PyDict [(''$binary'', PyStr ''dead'')]) depth = Inr (Binary [0xDE, 0xAD])"
  by (simp_all add: has_key_def startswith_def getitem_def bindE_def bytes_fromhex_def
      isspace_def digit_value_def)

text \<open>
  Claim C3. A document that contains the key \<open>@embText\<close> is decoded as a whole by the
  importer of EmbeddedText, whatever other keys it has, so never as an ObjectId; a document
  that contains \<open>@embImage\<close> and not \<open>@embText\<close> is decoded by the importer of
  EmbeddedImage.
\<close>

theorem embedding_tags_first:
  "(has_key ''@embText'' d \<longrightarrow>
      deserialize L (PyDict d) depth
        = bindE (EmbText_from_json L (PyDict d)) (\<lambda>p. Inr (EmbText p))
      \<and> deserialize L (PyDict d) depth \<noteq> Inr (ObjectId s))
   \<and> (has_key ''@embImage'' d \<and> \<not> has_key ''@embText'' d \<longrightarrow>
      deserialize L (PyDict d) depth
        = bindE (EmbImage_from_json L (PyDict d)) (\<lambda>p. Inr (EmbImage p)))"
  by (auto simp: scan_keys_embText scan_keys_embImage bindE_def split: sum.splits)

theorem embedding_tags_first_witness:
  "has_key ''@embText'' [(''$oid'', PyStr ''0123456789abcdef01234567''), (''@embText'', PyStr ''hello'')]
   \<and> deserialize sample_externals
         (PyDict [(''$oid'', PyStr ''0123456789abcdef01234567''), (''@embText'', PyStr ''hello'')]) 0
       = Inr (EmbText (PyStr ''hello''))
   \<and> has_key ''@embImage'' [(''$oid'', PyStr ''0123456789abcdef01234567''), (''@embImage'', PyStr ''img'')]
   \<and> \<not> has_key ''@embText'' [(''$oid'', PyStr ''0123456789abcdef01234567''), (''@embImage'', PyStr ''img'')]
   \<and> deserialize sample_externals
         (PyDict [(''$oid'', PyStr ''0123456789abcdef01234567''), (''@embImage'', PyStr ''img'')]) 0
       = Inr (EmbImage (PyStr ''img''))"
  using embedding_tags_first
    [of "[(''$oid'', PyStr ''0123456789abcdef01234567''), (''@embText'', PyStr ''hello'')]"
      sample_externals 0]
    embedding_tags_first
    [of "[(''$oid'', PyStr ''0123456789abcdef01234567''), (''@embImage'', PyStr ''img'')]"
      sample_externals 0]
  by (simp add: has_key_def sample_externals_def EmbText_import_def EmbImage_import_def
      subscript_def getitem_def bindE_def)

text \<open>
  The dispatch by the fixed order of the tags fails on this document: it holds no embedding
  tag, its first key is \<open>$maxKey\<close> and it is decoded as MaxKey, where the fixed order
  puts \<open>$minKey\<close> first.
\<close>

theorem fixed_order_counterexample:
  "\<not> has_key ''@embText'' [(''$maxKey'', PyInt 1), (''$minKey'', PyInt 1)]
   \<and> \<not> has_key ''@embImage'' [(''$maxKey'', PyInt 1), (''$minKey'', PyInt 1)]
   \<and> deserialize sample_externals (PyDict [(''$maxKey'', PyInt 1), (''$minKey'', PyInt 1)]) 0
       = Inr MaxKey
   \<and> decode_fixed_order sample_externals [(''$maxKey'', PyInt 1), (''$minKey'', PyInt 1)] 0
       = Inr MinKey"
  by (simp add: has_key_def startswith_def decode_fixed_order_def tag_order_def decode_tag_def)

text \<open>
  Claim C2, as the code has it. A document with neither \<open>@embText\<close> nor \<open>@embImage\<close>
  is decoded by the first of its own keys, in the document's key order, that is one of the
  nine tags \<open>$oid\<close>, \<open>$date\<close>, \<open>$numberDecimal\<close>, \<open>$binary\<close>, \<open>$regex\<close>, \<open>$code\<close>,
  \<open>$timestamp\<close>, \<open>$minKey\<close>, \<open>$maxKey\<close>: as the extension value of that tag, from that
  key's payload (and \<open>$options\<close> for \<open>$regex\<close>), all other keys ignored. With no such key
  it is decoded structurally.
\<close>

theorem key_order_dispatch:
  assumes "\<not> has_key ''@embText'' d" and "\<not> has_key ''@embImage'' d"
  shows "deserialize L (PyDict d) depth = decode_key_order L d depth"
  by (simp add: scan_keys_untagged [OF assms] decode_key_order_def decode_structural_def
      split: option.splits)

theorem key_order_dispatch_witness:
  "\<not> has_key ''@embText'' [(''name'', PyStr ''a''), (''$regex'', PyStr ''^a''), (''$oid'', PyStr ''x'')]
   \<and> \<not> has_key ''@embImage'' [(''name'', PyStr ''a''), (''$regex'', PyStr ''^a''), (''$oid'', PyStr ''x'')]
   \<and> deserialize sample_externals
         (PyDict [(''name'', PyStr ''a''), (''$regex'', PyStr ''^a''), (''$oid'', PyStr ''x'')]) 0
       = Inr (Regex ''^a'' 0)"
proof -
  have h: "\<not> has_key ''@embText'' [(''name'', PyStr ''a''), (''$regex'', PyStr ''^a''), (''$oid'', PyStr ''x'')]"
    "\<not> has_key ''@embImage'' [(''name'', PyStr ''a''), (''$regex'', PyStr ''^a''), (''$oid'', PyStr ''x'')]"
    by (simp_all add: has_key_def)
  have "decode_key_order sample_externals
          [(''name'', PyStr ''a''), (''$regex'', PyStr ''^a''), (''$oid'', PyStr ''x'')] 0
        = Inr (Regex ''^a'' 0)"
    by (simp add: decode_key_order_def tag_order_def decode_tag_def getitem_def dict_get_def
        sample_externals_def from_str_int_def bindE_def)
  then show ?thesis
    using h key_order_dispatch [OF h, of sample_externals 0] by simp
qed

lemma serialize_unrecognised:
  "(unrecognised_in v \<longrightarrow> (\<exists>e. serialize L v = Inl e))"
  "(unrecognised_in_items d \<longrightarrow> (\<exists>e. serialize_items L d = Inl e))"
  "(unrecognised_in_list xs \<longrightarrow> (\<exists>e. serialize_list L xs = Inl e))"
  by (induction L v and L d and L xs rule: serialize_serialize_items_serialize_list.induct)
     (auto simp: BSON_SERIALIZERS_def split: sum.splits)

lemma deserialize_shapeless:
  "shapeless_in v \<longrightarrow> (\<exists>e. deserialize L v depth = Inl e)"
  "shapeless_in_items d \<longrightarrow> (\<exists>e. deserialize_items L d depth = Inl e)"
  "shapeless_in_list xs \<longrightarrow> (\<exists>e. deserialize_list L xs depth = Inl e)"
  by (induction L v depth and L d depth and L xs depth
      rule: deserialize_deserialize_items_deserialize_list.induct)
     (auto simp: scan_keys_tag_free wire_shape_def split: sum.splits)

text \<open>
  A value that is neither a scalar nor a mapping nor a sequence is skipped in silence when
  it stands beside a tag key: the document is decoded from the tag's payload alone.
\<close>

theorem silent_skip_counterexample:
  "\<not> wire_shape (PyObject ''set'')
   \<and> deserialize sample_externals (PyDict [(''$minKey'', PyInt 1), (''x'', PyObject ''set'')]) 0
       = Inr MinKey"
  by (simp add: wire_shape_def has_key_def startswith_def)

text \<open>
  Claim C4, as the code has it. \<open>__serialize\<close> raises the unsupported-type error on every
  value that is not null, a boolean, an integer, a float, a string, a document, a sequence,
  a placeholder or a registered extension value, and raises whenever such a value occurs
  anywhere inside the documents and sequences of its input. \<open>__deserialize\<close> raises the
  unsupported-type error on every value that is neither a scalar nor a mapping nor a
  sequence, and raises whenever such a value occurs inside sequences and documents none of
  which has a tag among its keys. In these positions nothing is skipped.
\<close>

theorem unsupported_type_raises:
  "(\<not> recognised v \<longrightarrow> serialize L v = Inl (UnsupportedType v))
   \<and> (\<not> wire_shape v \<longrightarrow> deserialize L v depth = Inl (UnsupportedType v))
   \<and> (unrecognised_in v \<longrightarrow> (\<exists>e. serialize L v = Inl e))
   \<and> (shapeless_in v \<longrightarrow> (\<exists>e. deserialize L v depth = Inl e))"
proof (intro conjI)
  show "\<not> recognised v \<longrightarrow> serialize L v = Inl (UnsupportedType v)"
    by (cases v) (simp_all add: recognised_def BSON_SERIALIZERS_def)
  show "\<not> wire_shape v \<longrightarrow> deserialize L v depth = Inl (UnsupportedType v)"
    by (cases v) (simp_all add: wire_shape_def)
  show "unrecognised_in v \<longrightarrow> (\<exists>e. serialize L v = Inl e)"
    by (rule serialize_unrecognised(1))
  show "shapeless_in v \<longrightarrow> (\<exists>e. deserialize L v depth = Inl e)"
    by (rule deserialize_shapeless(1))
qed

theorem unsupported_type_raises_witness:
  "\<not> recognised (PyObject ''tuple'')
   \<and> serialize sample_externals (PyObject ''tuple'') = Inl (UnsupportedType (PyObject ''tuple''))
   \<and> \<not> wire_shape (ObjectId ''0123456789abcdef01234567'')
   \<and> deserialize sample_externals (ObjectId ''0123456789abcdef01234567'') 0
       = Inl (UnsupportedType (ObjectId ''0123456789abcdef01234567''))
   \<and> unrecognised_in (PyDict [(''a'', PyInt 1), (''b'', PyList [PyObject ''set''])])
   \<and> serialize sample_externals (PyDict [(''a'', PyInt 1), (''b'', PyList [PyObject ''set''])])
       = Inl (UnsupportedType (PyObject ''set''))
   \<and> shapeless_in (PyDict [(''a'', PyInt 1), (''b'', PyList [PyObject ''set''])])
   \<and> deserialize sample_externals
         (PyDict [(''a'', PyInt 1), (''b'', PyList [PyObject ''set''])]) 0
       = Inl (UnsupportedType (PyObject ''set''))"
  using unsupported_type_raises [of "PyObject ''tuple''" sample_externals 0]
    unsupported_type_raises [of "ObjectId ''0123456789abcdef01234567''" sample_externals 0]
    unsupported_type_raises
      [of "PyDict [(''a'', PyInt 1), (''b'', PyList [PyObject ''set''])]" sample_externals 0]
  by (simp add: recognised_def wire_shape_def BSON_SERIALIZERS_def reserved_keys_def
      tag_order_def has_key_def startswith_def)

subsection \<open>Documents without extension values\<close>

lemma serialize_plain:
  "plain v \<longrightarrow> serialize L v = Inr v"
  "plain_items d \<longrightarrow> serialize_items L d = Inr d"
  "plain_list xs \<longrightarrow> serialize_list L xs = Inr xs"
  by (induction L v and L d and L xs rule: serialize_serialize_items_serialize_list.induct)
     simp_all

lemma deserialize_plain:
  "plain v \<longrightarrow> tag_free v \<longrightarrow> deserialize L v depth = Inr v"
  "plain_items d \<longrightarrow> tag_free_items d \<longrightarrow> deserialize_items L d depth = Inr d"
  "plain_list xs \<longrightarrow> tag_free_list xs \<longrightarrow> deserialize_list L xs depth = Inr xs"
  by (induction L v depth and L d depth and L xs depth
      rule: deserialize_deserialize_items_deserialize_list.induct)
     (simp_all add: scan_keys_tag_free)

text \<open>
  A document of plain values only whose key is a tag does not come back: it is decoded as
  the extension value of that tag.
\<close>

theorem structural_counterexample:
  "plain (PyDict [(''$minKey'', PyInt 1)])
   \<and> serialize sample_externals (PyDict [(''$minKey'', PyInt 1)])
       = Inr (PyDict [(''$minKey'', PyInt 1)])
   \<and> deserialize sample_externals (PyDict [(''$minKey'', PyInt 1)]) 0 = Inr MinKey"
  by (simp add: has_key_def startswith_def)

text \<open>
  Claim C6, as the code has it. For every document or sequence \<open>x\<close> that contains no
  extension values and in which no document, at any depth, has one of the keys
  \<open>@embText\<close>, \<open>@embImage\<close> or the nine \<open>$\<close> tags, deserializing the serialized \<open>x\<close>
  gives \<open>x\<close>, with the key order of every document kept.
\<close>

theorem structural_roundtrip:
  assumes "plain x" and "tag_free x"
  shows "bindE (serialize L x) (\<lambda>w. deserialize L w depth) = Inr x"
  using assms by (simp add: serialize_plain(1) deserialize_plain(1) bindE_Inr)

theorem structural_roundtrip_witness:
  "plain (PyDict [(''b'', PyList [PyInt 1, PyNone]), (''a'', PyDict [(''$gt'', PyInt 3)])])
   \<and> tag_free (PyDict [(''b'', PyList [PyInt 1, PyNone]), (''a'', PyDict [(''$gt'', PyInt 3)])])
   \<and> bindE (serialize sample_externals
              (PyDict [(''b'', PyList [PyInt 1, PyNone]), (''a'', PyDict [(''$gt'', PyInt 3)])]))
        (\<lambda>w. deserialize sample_externals w 0)
       = Inr (PyDict [(''b'', PyList [PyInt 1, PyNone]), (''a'', PyDict [(''$gt'', PyInt 3)])])"
proof -
  have h: "plain (PyDict [(''b'', PyList [PyInt 1, PyNone]), (''a'', PyDict [(''$gt'', PyInt 3)])])"
    "tag_free (PyDict [(''b'', PyList [PyInt 1, PyNone]), (''a'', PyDict [(''$gt'', PyInt 3)])])"
    by (simp_all add: reserved_keys_def tag_order_def)
  show ?thesis
    using h structural_roundtrip [OF h, of sample_externals 0] by simp
qed

section \<open>Properties of the classifier and of the operations\<close>

text \<open>
  The classification of the two kinds of body that the handler foresees. On a failed
  response (\<open>raise_for_status\<close> raises): a body that does not parse as JSON gives the
  generic API error with the HTTP status code and the raw body text; a JSON object with an
  integer \<open>code\<close> gives \<open>AuthenticationError\<close> for 401, \<open>ClientRequestError\<close> for any
  other code from 400 to 499 and \<open>ServerError\<close> for every other code, each with the code
  and the message of the body.
\<close>

lemma classification:
  assumes "raise_for_status L r"
  shows "(json r = None \<longrightarrow>
            handle_response L r
              = Inl (APIClientError (PyInt (status_code r)) (PyStr (body_text r))))
         \<and> (json r = Some (PyDict d) \<and> map_of d ''code'' = Some (PyInt code) \<longrightarrow>
            handle_response L r
              = Inl (let message = dict_get d ''message'' (PyStr ''An unknown error occurred.'')
                     in if code = 401 then AuthenticationError (PyInt code) message
                        else if 400 \<le> code \<and> code < 500
                          then ClientRequestError (PyInt code) message
                        else ServerError (PyInt code) message))"
  using assms
  by (auto simp: handle_response_def classify_def dict_get_def py_eq_int_def py_ge_int_def
      py_lt_int_def as_number_def Let_def)

lemma classification_example:
  "raise_for_status sample_externals \<lparr>status_code = 404, body_text = ''{...}'',
       json = Some (PyDict [(''status'', PyStr ''error''), (''code'', PyInt 404),
                            (''message'', PyStr ''no such document'')])\<rparr>
   \<and> handle_response sample_externals \<lparr>status_code = 404, body_text = ''{...}'',
       json = Some (PyDict [(''status'', PyStr ''error''), (''code'', PyInt 404),
                            (''message'', PyStr ''no such document'')])\<rparr>
       = Inl (ClientRequestError (PyInt 404) (PyStr ''no such document''))
   \<and> raise_for_status sample_externals
         \<lparr>status_code = 502, body_text = ''Bad Gateway'', json = None\<rparr>
   \<and> handle_response sample_externals
         \<lparr>status_code = 502, body_text = ''Bad Gateway'', json = None\<rparr>
       = Inl (APIClientError (PyInt 502) (PyStr ''Bad Gateway''))"
proof -
  have a: "raise_for_status sample_externals \<lparr>status_code = 404, body_text = ''{...}'',
       json = Some (PyDict [(''status'', PyStr ''error''), (''code'', PyInt 404),
                            (''message'', PyStr ''no such document'')])\<rparr>"
    by (simp add: sample_externals_def)
  have b: "raise_for_status sample_externals
         \<lparr>status_code = 502, body_text = ''Bad Gateway'', json = None\<rparr>"
    by (simp add: sample_externals_def)
  show ?thesis
    using a b
      classification [OF a, of "[(''status'', PyStr ''error''), (''code'', PyInt 404),
                            (''message'', PyStr ''no such document'')]" 404]
      classification [OF b]
    by (simp add: dict_get_def)
qed

text \<open>
  Claim C5. Every failed response raises exactly one error of the closed taxonomy. The
  handler does not: its inner \<open>try\<close> catches \<open>ValueError\<close> only, so on a body that
  parses as JSON and is not an object the \<open>AttributeError\<close> of \<open>error_data.get\<close>
  leaves \<open>handle_response\<close>, and on a \<open>code\<close> that is not a number the \<open>TypeError\<close> of
  \<open>code >= 400\<close> does.
\<close>

theorem classification_escapes:
  "handle_response sample_externals
     \<lparr>status_code = 500, body_text = ''[1, 2]'', json = Some (PyList [PyInt 1, PyInt 2])\<rparr>
     = Inl AttributeError
   \<and> handle_response sample_externals
     \<lparr>status_code = 404, body_text = ''{...}'',
      json = Some (PyDict [(''code'', PyStr ''404''), (''message'', PyStr ''not found'')])\<rparr>
     = Inl TypeError"
  by (simp add: handle_response_def sample_externals_def classify_def dict_get_def
      py_eq_int_def py_ge_int_def as_number_def)

text \<open>
  Claim C7. Every operation serializes all of its structured inputs before it builds the
  request body. \<open>Collection.query\<close> does not: it stores the filter as it was passed,
  where \<open>Collection.find\<close> sends the same filter serialized.
\<close>

theorem query_filter_not_serialized:
  "query_data (PyStr ''q'') (PyDict [(''_id'', ObjectId ''0123456789abcdef01234567'')])
       PyNone PyNone PyNone PyNone
     = [(''query'', PyStr ''q''),
        (''filter'', PyDict [(''_id'', ObjectId ''0123456789abcdef01234567'')])]
   \<and> find_data sample_externals (PyDict [(''_id'', ObjectId ''0123456789abcdef01234567'')])
       PyNone PyNone PyNone PyNone
     = Inr (PyDict [(''filter'',
                      PyDict [(''_id'', PyDict [(''$oid'', PyStr ''0123456789abcdef01234567'')])]),
                    (''projection'', PyNone), (''sort'', PyNone), (''limit'', PyNone),
                    (''skip'', PyNone)])"
  by (simp add: query_data_def find_data_def bindE_def BSON_SERIALIZERS_def)



lemma keys_setitem: "set (map fst (setitem d k v)) = insert k (set (map fst d))"
proof (induction d)
  case Nil
  show ?case by simp
next
  case (Cons kv d)
  obtain k' v' where kv: "kv = (k', v')" by (cases kv)
  show ?case
  proof (cases "k' = k")
    case True
    then show ?thesis by (simp add: kv)
  next
    case False
    then show ?thesis using Cons.IH by (simp add: kv insert_commute)
  qed
qed

lemma has_key_setitem: "has_key k (setitem d k' v) = (k = k' \<or> has_key k d)"
  unfolding has_key_def keys_setitem by simp

text \<open>
  Claim C9. The request body of \<open>Collection.query\<close> has no key for an optional
  argument (\<open>filter\<close>, \<open>projection\<close>, \<open>emb_model\<close>, \<open>top_k\<close>, \<open>include_values\<close>) that
  is left unset: the key is absent, not bound to null.
\<close>

theorem query_omits_unset:
  "(filter' = PyNone \<longrightarrow>
      \<not> has_key ''filter'' (query_data query filter' projection emb_model top_k include_values))
   \<and> (projection = PyNone \<longrightarrow>
      \<not> has_key ''projection''
          (query_data query filter' projection emb_model top_k include_values))
   \<and> (emb_model = PyNone \<longrightarrow>
      \<not> has_key ''emb_model''
          (query_data query filter' projection emb_model top_k include_values))
   \<and> (top_k = PyNone \<longrightarrow>
      \<not> has_key ''top_k'' (query_data query filter' projection emb_model top_k include_values))
   \<and> (include_values = PyNone \<longrightarrow>
      \<not> has_key ''include_values''
          (query_data query filter' projection emb_model top_k include_values))"
  by (simp add: query_data_def Let_def has_key_setitem) (simp add: has_key_def)

theorem query_omits_unset_witness:
  "query_data (PyStr ''hello'') PyNone PyNone PyNone PyNone PyNone = [(''query'', PyStr ''hello'')]
   \<and> \<not> has_key ''top_k'' (query_data (PyStr ''hello'') PyNone PyNone PyNone PyNone PyNone)
   \<and> \<not> has_key ''top_k''
         (query_data (PyStr ''hello'') (PyDict []) PyNone (PyStr ''m'') PyNone (PyBool True))"
  using query_omits_unset [of PyNone "PyStr ''hello''" PyNone PyNone PyNone PyNone]
    query_omits_unset [of "PyDict []" "PyStr ''hello''" PyNone "PyStr ''m''" PyNone "PyBool True"]
  by (simp add: query_data_def)

text \<open>
  Claim C10. When the deserialized success body is a document without the key \<open>docs\<close>,
  \<open>Collection.find\<close> returns the empty list; when it is a document without the key
  \<open>matches\<close>, \<open>Collection.query\<close> returns the empty list.
\<close>

theorem missing_result_key:
  "(serialize L filter' = Inr f \<and> handle_response L r = Inr (PyDict d) \<and> \<not> has_key ''docs'' d
      \<longrightarrow> collection_find L (\<lambda>req. Inr r) c filter' projection sort' limit skip
            = Inr (PyList []))
   \<and> (handle_response L r = Inr (PyDict d) \<and> \<not> has_key ''matches'' d
      \<longrightarrow> collection_query L (\<lambda>req. Inr r) c query filter' projection emb_model top_k
              include_values
            = Inr (PyList []))"
  by (auto simp: collection_find_def collection_query_def find_data_def bindE_def py_get_def
      dict_get_def has_key_def map_of_eq_None_iff [THEN iffD2])

theorem missing_result_key_witness:
  "serialize sample_externals (PyDict []) = Inr (PyDict [])
   \<and> handle_response sample_externals
        \<lparr>status_code = 200, body_text = ''{...}'', json = Some (PyDict [(''count'', PyInt 0)])\<rparr>
       = Inr (PyDict [(''count'', PyInt 0)])
   \<and> \<not> has_key ''docs'' [(''count'', PyInt 0)]
   \<and> \<not> has_key ''matches'' [(''count'', PyInt 0)]
   \<and> collection_find sample_externals
        (\<lambda>req. Inr \<lparr>status_code = 200, body_text = ''{...}'',
                      json = Some (PyDict [(''count'', PyInt 0)])\<rparr>)
        \<lparr>api_key = ''k'', project_id = ''p'', db_name = ''d'', collection_name = ''c''\<rparr>
        (PyDict []) PyNone PyNone PyNone PyNone
       = Inr (PyList [])
   \<and> collection_query sample_externals
        (\<lambda>req. Inr \<lparr>status_code = 200, body_text = ''{...}'',
                      json = Some (PyDict [(''count'', PyInt 0)])\<rparr>)
        \<lparr>api_key = ''k'', project_id = ''p'', db_name = ''d'', collection_name = ''c''\<rparr>
        (PyStr ''hello'') (PyDict []) PyNone PyNone PyNone PyNone
       = Inr (PyList [])"
proof -
  have s: "serialize sample_externals (PyDict []) = Inr (PyDict [])" by simp
  have h: "handle_response sample_externals
        \<lparr>status_code = 200, body_text = ''{...}'', json = Some (PyDict [(''count'', PyInt 0)])\<rparr>
       = Inr (PyDict [(''count'', PyInt 0)])"
    by (simp add: handle_response_def sample_externals_def has_key_def startswith_def)
  have k: "\<not> has_key ''docs'' [(''count'', PyInt 0)]"
    "\<not> has_key ''matches'' [(''count'', PyInt 0)]"
    by (simp_all add: has_key_def)
  show ?thesis
    using s h k
      missing_result_key [of sample_externals "PyDict []" "PyDict []"
        "\<lparr>status_code = 200, body_text = ''{...}'', json = Some (PyDict [(''count'', PyInt 0)])\<rparr>"
        "[(''count'', PyInt 0)]"
        "\<lparr>api_key = ''k'', project_id = ''p'', db_name = ''d'', collection_name = ''c''\<rparr>"
        PyNone PyNone PyNone PyNone "PyStr ''hello''" PyNone PyNone PyNone]
    by simp
qed

end
